theory Spec2Isabelle
  imports Main
begin

section \<open>The paginated fetch controller of hooks.ts (useCharacters)\<close>

subsection \<open>Data model\<close>

text \<open>
  \<open>Pages\<close> is the pair of navigation links held in React state;
  \<open>StarWarsApiResponse\<close> is the decoded body \<open>{previous, next, results}\<close>.
  The item type \<open>StarWarsCharacter\<close> is declared in characters.ts and is only passed
  through by the hook, so it is the type parameter \<open>'c\<close>.
\<close>

record Pages =
  previous :: "string option"
  "next" :: "string option"

record 'c StarWarsApiResponse = Pages +
  results :: "'c list"

text \<open>The five \<open>useState\<close> cells of the hook, with their initial values.\<close>

record 'c hook_state =
  loading :: bool
  error :: "string option"
  characters :: "'c list"
  currentPage :: "string option"
  pages :: Pages

definition initial_state :: "'c hook_state" where
  "initial_state =
     \<lparr>loading = True, error = None, characters = [], currentPage = None,
      pages = \<lparr>previous = None, next = None\<rparr>\<rparr>"

text \<open>
  JavaScript truthiness of a \<open>string | null\<close>: \<open>null\<close> and the empty string are falsy,
  every other string is truthy. This is what \<open>if (currentPage)\<close>, \<open>if (error)\<close> and
  \<open>if (!page)\<close> test.
\<close>

definition truthy :: "string option \<Rightarrow> bool" where
  "truthy v = (case v of None \<Rightarrow> False | Some s \<Rightarrow> s \<noteq> [])"

subsection \<open>What a fetch attempt can deliver\<close>

text \<open>
  A value caught by \<open>catch (err: unknown)\<close>: either an \<open>Error\<close> instance with its
  \<open>name\<close>, \<open>message\<close> and \<open>cause\<close> (a number when the hook attached a status, otherwise
  absent), or any other thrown value. An aborted request rejects with a \<open>DOMException\<close>
  named \<open>AbortError\<close>, which is an \<open>Error\<close> instance.
\<close>

datatype thrown =
  ErrorObject string string "nat option"
| NonErrorValue

definition AbortError :: thrown where
  "AbortError = ErrorObject ''AbortError'' ''The operation was aborted.'' None"

text \<open>
  A \<open>Response\<close>: its status line and what \<open>response.json()\<close> settles to
  (the decoded body, or the value it rejects with).
\<close>

record 'c Response =
  status :: nat
  statusText :: string
  json :: "thrown + 'c StarWarsApiResponse"

definition ok :: "'c Response \<Rightarrow> bool" where
  "ok r = (200 \<le> status r \<and> status r \<le> 299)"

datatype 'c fetch_result =
  Resolves "'c Response"
| Rejects thrown

text \<open>Decimal rendering of a number inside a template literal.\<close>

definition digit_char :: "nat \<Rightarrow> char" where
  "digit_char d = char_of (48 + d)"

fun show_nat :: "nat \<Rightarrow> string" where
  "show_nat n = (if n < 10 then [digit_char n] else show_nat (n div 10) @ [digit_char (n mod 10)])"

declare show_nat.simps [simp del]

subsection \<open>Effects of the hook, in program order\<close>

text \<open>
  Every state setter call, every \<open>fetch\<close> and every \<open>setTimeout\<close> wait the async
  function performs, recorded in the order the code performs them. \<open>Fetch\<close> and
  \<open>Wait\<close> are the two places where \<open>fetchData\<close> suspends (\<open>await\<close>).
\<close>

datatype 'c event =
  SetLoading bool
| SetError "string option"
| SetPages Pages
| SetCharacters "'c list"
| Fetch string
| Wait nat

fun apply_event :: "'c event \<Rightarrow> 'c hook_state \<Rightarrow> 'c hook_state" where
  "apply_event (SetLoading b) s = s\<lparr>loading := b\<rparr>"
| "apply_event (SetError e) s = s\<lparr>error := e\<rparr>"
| "apply_event (SetPages p) s = s\<lparr>pages := p\<rparr>"
| "apply_event (SetCharacters cs) s = s\<lparr>characters := cs\<rparr>"
| "apply_event (Fetch u) s = s"
| "apply_event (Wait d) s = s"

fun run :: "'c event list \<Rightarrow> 'c hook_state \<Rightarrow> 'c hook_state" where
  "run [] s = s"
| "run (e # es) s = run es (apply_event e s)"

subsection \<open>fetchData (hooks.ts, lines 15 to 62)\<close>

definition MAX_RETRIES :: nat where
  "MAX_RETRIES = 3"

text \<open>Lines 20 to 23: the request URL.\<close>

definition request_url :: "string option \<Rightarrow> string" where
  "request_url cur =
     (case cur of
        Some page \<Rightarrow> if truthy cur then page else ''https://swapi.dev/api/people''
      | None \<Rightarrow> ''https://swapi.dev/api/people'')"

text \<open>
  Lines 25 to 36: what the \<open>try\<close> block has in hand once its awaits have settled:
  the decoded body, or the value thrown (by \<open>fetch\<close>, by the \<open>!response.ok\<close> branch,
  or by \<open>response.json()\<close>).
\<close>

definition http_error :: "'c Response \<Rightarrow> thrown" where
  "http_error r =
     ErrorObject ''Error'' (show_nat (status r) @ '': '' @ statusText r) (Some (status r))"

definition try_body :: "'c fetch_result \<Rightarrow> thrown + 'c StarWarsApiResponse" where
  "try_body res =
     (case res of
        Rejects t \<Rightarrow> Inl t
      | Resolves r \<Rightarrow> if \<not> ok r then Inl (http_error r) else json r)"

text \<open>Line 46: \<open>status >= 400 && status < 500\<close>; both comparisons are false on \<open>undefined\<close>.\<close>

definition client_error :: "nat option \<Rightarrow> bool" where
  "client_error c = (case c of None \<Rightarrow> False | Some st \<Rightarrow> 400 \<le> st \<and> st < 500)"

text \<open>
  \<open>fetchData cur env attempts\<close>: \<open>cur\<close> is the \<open>currentPage\<close> the effect closed over and
  \<open>env n\<close> is what the network delivers to the request issued by the call with
  \<open>attempts = n\<close>. The result is the list of effects of the call, the \<open>finally\<close> block last.
\<close>

function fetchData :: "string option \<Rightarrow> (nat \<Rightarrow> 'c fetch_result) \<Rightarrow> nat \<Rightarrow> 'c event list" where
  "fetchData cur env attempts =
     [SetLoading True, SetError None, Fetch (request_url cur)] @
     (case try_body (env attempts) of
        Inr data \<Rightarrow>
          [SetPages \<lparr>previous = previous data, next = next data\<rparr>,
           SetCharacters (results data)]
      | Inl NonErrorValue \<Rightarrow> []
      | Inl (ErrorObject name message cause) \<Rightarrow>
          if name \<noteq> ''AbortError'' then
            if client_error cause then [SetError (Some message)]
            else if attempts \<ge> MAX_RETRIES then [SetError (Some message)]
            else [Wait (2 ^ attempts * 1000)] @ fetchData cur env (attempts + 1)
          else []) @
     [SetLoading False]"
  by pat_completeness auto
termination
  by (relation "measure (\<lambda>(cur, env, attempts). MAX_RETRIES - attempts)") auto

declare fetchData.simps [simp del]

subsection \<open>setPage and the effect on currentPage (lines 64 to 69, 83 to 88)\<close>

definition setPage :: "string option \<Rightarrow> 'c hook_state \<Rightarrow> 'c hook_state" where
  "setPage page s = (if \<not> truthy page then s else s\<lparr>currentPage := page\<rparr>)"

text \<open>
  The fetch effect has the dependency list \<open>[currentPage]\<close>: after a state change it
  runs again, starting a new \<open>fetchData()\<close>, exactly when \<open>currentPage\<close> differs.
  \<open>goToPage\<close> is \<open>setPage\<close> followed by that re-run; it returns the new state and the
  effects of the sequence it started, if any.
\<close>

definition goToPage ::
  "string option \<Rightarrow> (nat \<Rightarrow> 'c fetch_result) \<Rightarrow> 'c hook_state \<Rightarrow> 'c hook_state \<times> 'c event list option" where
  "goToPage page env s =
     (let s' = setPage page s in
      if currentPage s' \<noteq> currentPage s
      then (s', Some (fetchData (currentPage s') env 0))
      else (s', None))"

subsection \<open>Reading a sequence of effects\<close>

text \<open>The request targets and the backoff waits of a sequence, in order.\<close>

fun fetches :: "'c event list \<Rightarrow> string list" where
  "fetches [] = []"
| "fetches (Fetch u # es) = u # fetches es"
| "fetches (e # es) = fetches es"

fun waits :: "'c event list \<Rightarrow> nat list" where
  "waits [] = []"
| "waits (Wait d # es) = d # waits es"
| "waits (e # es) = waits es"

text \<open>
  \<open>fetchData\<close> is suspended while a request is in flight and during a backoff wait.
  \<open>until_suspend\<close> is what a sequence does synchronously up to and including its first
  suspension; \<open>after_suspend\<close> is what it does once that suspension is over.
\<close>

fun suspends :: "'c event \<Rightarrow> bool" where
  "suspends (Fetch u) = True"
| "suspends (Wait d) = True"
| "suspends e = False"

fun until_suspend :: "'c event list \<Rightarrow> 'c event list" where
  "until_suspend [] = []"
| "until_suspend (e # es) = (if suspends e then [e] else e # until_suspend es)"

fun after_suspend :: "'c event list \<Rightarrow> 'c event list" where
  "after_suspend [] = []"
| "after_suspend (e # es) = (if suspends e then es else after_suspend es)"

text \<open>
  \<open>loading_while_suspended s es\<close>: started in state \<open>s\<close>, the sequence \<open>es\<close> has
  \<open>loading = true\<close> at each of its suspensions.
\<close>

fun loading_while_suspended :: "'c hook_state \<Rightarrow> 'c event list \<Rightarrow> bool" where
  "loading_while_suspended s [] = True"
| "loading_while_suspended s (e # es) =
     ((if suspends e then loading s else True) \<and> loading_while_suspended (apply_event e s) es)"

text \<open>
  The failures the \<open>catch\<close> block answers with a backoff wait and a retry (when
  \<open>attempts < MAX_RETRIES\<close>): an \<open>Error\<close> instance that is not an abort and carries no
  status in \<open>[400, 500)\<close>.
\<close>

fun transient :: "thrown \<Rightarrow> bool" where
  "transient (ErrorObject name message cause) = (name \<noteq> ''AbortError'' \<and> \<not> client_error cause)"
| "transient NonErrorValue = False"

subsection \<open>The error effect and its timer (lines 71 to 81)\<close>

text \<open>
  A mounted hook: the state cells, a clock in milliseconds, the pending \<open>setTimeout\<close>
  callbacks of the error effect as pairs (timer id, due time), the timer id the current
  cleanup function of the effect closes over (if the effect returned one), and the next
  fresh timer id.
\<close>

record 'c hook_instance = "'c hook_state" +
  clock :: nat
  timeouts :: "(nat \<times> nat) list"
  cleanup :: "nat option"
  next_id :: nat

text \<open>The effect body: \<open>if (error) { timer = setTimeout(..., 3000); return cleanup }\<close>.\<close>

definition error_effect :: "'c hook_instance \<Rightarrow> 'c hook_instance" where
  "error_effect h =
     (if truthy (error h)
      then h\<lparr>timeouts := timeouts h @ [(next_id h, clock h + 3000)],
             cleanup := Some (next_id h),
             next_id := next_id h + 1\<rparr>
      else h\<lparr>cleanup := None\<rparr>)"

text \<open>The cleanup function: \<open>clearTimeout(timer)\<close>.\<close>

definition error_cleanup :: "'c hook_instance \<Rightarrow> 'c hook_instance" where
  "error_cleanup h =
     (case cleanup h of
        None \<Rightarrow> h
      | Some t \<Rightarrow> h\<lparr>timeouts := filter (\<lambda>(i, due). i \<noteq> t) (timeouts h), cleanup := None\<rparr>)"

text \<open>
  \<open>setError(v)\<close> on a mounted hook, with the re-render it causes: an effect with the
  dependency list \<open>[error]\<close> runs its cleanup and then its body exactly when the new value
  differs from the old one.
\<close>

definition setError :: "string option \<Rightarrow> 'c hook_instance \<Rightarrow> 'c hook_instance" where
  "setError v h = (if v = error h then h else error_effect (error_cleanup (h\<lparr>error := v\<rparr>)))"

text \<open>Mounting runs the effect once with \<open>error = null\<close>, which arms nothing.\<close>

definition mount :: "'c hook_instance" where
  "mount =
     \<lparr>loading = True, error = None, characters = [], currentPage = None,
      pages = \<lparr>previous = None, next = None\<rparr>,
      clock = 0, timeouts = [], cleanup = None, next_id = 0\<rparr>"

text \<open>Tearing the hook down runs the cleanup of the effect.\<close>

definition unmount :: "'c hook_instance \<Rightarrow> 'c hook_instance" where
  "unmount h = error_cleanup h"

text \<open>
  \<open>elapse d h\<close>: \<open>d\<close> milliseconds pass and nothing else happens. A pending callback
  whose due time has been reached runs \<open>setError(null)\<close> and is no longer pending.
\<close>

definition elapse :: "nat \<Rightarrow> 'c hook_instance \<Rightarrow> 'c hook_instance" where
  "elapse d h =
     (let t = clock h + d in
      if filter (\<lambda>(i, due). due \<le> t) (timeouts h) = [] then h\<lparr>clock := t\<rparr>
      else setError None (h\<lparr>clock := t, timeouts := filter (\<lambda>(i, due). t < due) (timeouts h)\<rparr>))"

text \<open>
  What holds of the timer in every state reached from \<open>mount\<close> by \<open>setError\<close> and
  \<open>elapse\<close>: a timer is pending exactly when the effect returned a cleanup, it is the
  one the cleanup closes over, and it is not yet due.
\<close>

definition settled :: "'c hook_instance \<Rightarrow> bool" where
  "settled h =
     (case cleanup h of
        None \<Rightarrow> timeouts h = [] \<and> \<not> truthy (error h)
      | Some t \<Rightarrow> truthy (error h) \<and> t < next_id h \<and>
          (case timeouts h of
             [(i, due)] \<Rightarrow> i = t \<and> clock h < due
           | _ \<Rightarrow> False))"

subsection \<open>Concrete environments and scenarios\<close>

text \<open>A server that answers every request with 503.\<close>

definition always_503 :: "nat \<Rightarrow> unit fetch_result" where
  "always_503 = (\<lambda>n. Resolves \<lparr>status = 503, statusText = ''Service Unavailable'',
                               json = Inl NonErrorValue\<rparr>)"

text \<open>A server that answers every request with 404.\<close>

definition always_404 :: "nat \<Rightarrow> unit fetch_result" where
  "always_404 = (\<lambda>n. Resolves \<lparr>status = 404, statusText = ''Not Found'',
                               json = Inl NonErrorValue\<rparr>)"

text \<open>A \<open>fetch\<close> that rejects with a value that is not an \<open>Error\<close>.\<close>

definition throws_value :: "nat \<Rightarrow> unit fetch_result" where
  "throws_value = (\<lambda>n. Rejects NonErrorValue)"

text \<open>A sequence whose signal is aborted while its request is in flight.\<close>

definition aborted :: "nat \<Rightarrow> unit fetch_result" where
  "aborted = (\<lambda>n. Rejects AbortError)"

text \<open>A request that is answered with a page of one item.\<close>

definition page_two :: "nat \<Rightarrow> unit fetch_result" where
  "page_two = (\<lambda>n. Resolves \<lparr>status = 200, statusText = ''OK'',
       json = Inr \<lparr>previous = Some ''p1'', next = Some ''p3'', results = [()]\<rparr>\<rparr>)"

text \<open>A server that answers 503 once and then with that page.\<close>

definition flaky :: "nat \<Rightarrow> unit fetch_result" where
  "flaky = (\<lambda>n. if n = 0 then always_503 n else page_two n)"

text \<open>A state in which an earlier sequence has surfaced its error.\<close>

definition error_showing :: "unit hook_state" where
  "error_showing = initial_state\<lparr>loading := False, error := Some ''404: Not Found''\<rparr>"

text \<open>
  The hook is mounted and its first sequence (default page) is in flight.
  Then \<open>setPage("p2")\<close> is called: the effect cleanup aborts the first sequence and the
  effect starts a second one, which runs up to its own \<open>fetch\<close>.
\<close>

definition first_in_flight :: "unit hook_state" where
  "first_in_flight = run (until_suspend (fetchData None aborted 0)) initial_state"

definition second_in_flight :: "unit hook_state" where
  "second_in_flight =
     (case goToPage (Some ''p2'') page_two first_in_flight of
        (s, Some es) \<Rightarrow> run (until_suspend es) s
      | (s, None) \<Rightarrow> s)"

text \<open>The aborted request of the first sequence now rejects, and the first sequence resumes.\<close>

definition first_resumed :: "unit hook_state" where
  "first_resumed = run (after_suspend (fetchData None aborted 0)) second_in_flight"

text \<open>
  The same supersession, with a server that answers \<open>p2\<close> with 503: the second sequence
  is in flight, the aborted first sequence resumes, and then the second sequence
  receives its 503 and goes on to its first backoff wait.
\<close>

definition retry_in_flight :: "unit hook_state" where
  "retry_in_flight =
     (case goToPage (Some ''p2'') always_503 first_in_flight of
        (s, Some es) \<Rightarrow> run (until_suspend es) s
      | (s, None) \<Rightarrow> s)"

definition retry_after_abort :: "unit hook_state" where
  "retry_after_abort = run (after_suspend (fetchData None aborted 0)) retry_in_flight"

definition retry_backing_off :: "unit hook_state" where
  "retry_backing_off =
     run (until_suspend (after_suspend (fetchData (Some ''p2'') always_503 0))) retry_after_abort"

section \<open>Auxiliary facts\<close>

subsection \<open>One equation per path through fetchData\<close>

lemma fetchData_success:
  assumes "try_body (env a) = Inr d"
  shows "fetchData cur env a =
    [SetLoading True, SetError None, Fetch (request_url cur),
     SetPages \<lparr>previous = previous d, next = next d\<rparr>, SetCharacters (results d),
     SetLoading False]"
  using assms by (subst fetchData.simps) simp

lemma fetchData_non_error:
  assumes "try_body (env a) = Inl NonErrorValue"
  shows "fetchData cur env a =
    [SetLoading True, SetError None, Fetch (request_url cur), SetLoading False]"
  using assms by (subst fetchData.simps) simp

lemma fetchData_abort:
  assumes "try_body (env a) = Inl (ErrorObject ''AbortError'' m c)"
  shows "fetchData cur env a =
    [SetLoading True, SetError None, Fetch (request_url cur), SetLoading False]"
  using assms by (subst fetchData.simps) simp

lemma fetchData_client_error:
  assumes "try_body (env a) = Inl (ErrorObject n m c)" "n \<noteq> ''AbortError''" "client_error c"
  shows "fetchData cur env a =
    [SetLoading True, SetError None, Fetch (request_url cur), SetError (Some m),
     SetLoading False]"
  using assms by (subst fetchData.simps) simp

lemma fetchData_exhausted:
  assumes "try_body (env a) = Inl (ErrorObject n m c)" "n \<noteq> ''AbortError''"
    "\<not> client_error c" "MAX_RETRIES \<le> a"
  shows "fetchData cur env a =
    [SetLoading True, SetError None, Fetch (request_url cur), SetError (Some m),
     SetLoading False]"
  using assms by (subst fetchData.simps) simp

lemma fetchData_retry:
  assumes "try_body (env a) = Inl t" "transient t" "a < MAX_RETRIES"
  shows "fetchData cur env a =
    [SetLoading True, SetError None, Fetch (request_url cur), Wait (2 ^ a * 1000)] @
    fetchData cur env (Suc a) @ [SetLoading False]"
proof -
  obtain n m c where t: "t = ErrorObject n m c" "n \<noteq> ''AbortError''" "\<not> client_error c"
    using assms(2) by (cases t) auto
  show ?thesis
    using assms(1,3) t by (subst fetchData.simps) simp
qed

lemma run_append: "run (xs @ ys) s = run ys (run xs s)"
  by (induction xs arbitrary: s) auto

lemma run_retry:
  assumes "try_body (env a) = Inl t" "transient t" "a < MAX_RETRIES"
  shows "run (fetchData cur env a) s =
           (run (fetchData cur env (Suc a)) (s\<lparr>loading := True, error := None\<rparr>))\<lparr>loading := False\<rparr>"
  using fetchData_retry[of env a t cur] assms by (simp add: run_append)

subsection \<open>Status lines\<close>

lemma show_nat_503: "show_nat 503 = ''503''"
  by code_simp

lemma show_nat_404: "show_nat 404 = ''404''"
  by code_simp

lemma try_body_http_error:
  assumes "env a = Resolves r" "\<not> ok r"
  shows "try_body (env a) = Inl (http_error r)"
  using assms by (simp add: try_body_def)

lemma transient_503:
  assumes "env n = Resolves r" "status r = 503"
  shows "try_body (env n) = Inl (ErrorObject ''Error'' (''503: '' @ statusText r) (Some 503))"
    and "transient (ErrorObject ''Error'' (''503: '' @ statusText r) (Some 503))"
  using assms by (simp_all add: try_body_def ok_def http_error_def show_nat_503 client_error_def)

subsection \<open>loading at the suspensions of a sequence\<close>

lemma lws_append:
  "loading_while_suspended s (xs @ ys) =
     (loading_while_suspended s xs \<and> loading_while_suspended (run xs s) ys)"
  by (induction xs arbitrary: s) auto

lemma lws_fetchData: "loading_while_suspended s (fetchData cur env a)"
proof (induction cur env a arbitrary: s rule: fetchData.induct)
  case (1 cur env attempts)
  show ?case
  proof (cases "try_body (env attempts)")
    case (Inr d)
    then show ?thesis by (simp add: fetchData_success)
  next
    case (Inl t)
    show ?thesis
    proof (cases t)
      case NonErrorValue
      with Inl show ?thesis by (simp add: fetchData_non_error)
    next
      case (ErrorObject n m c)
      show ?thesis
      proof (cases "n \<noteq> ''AbortError'' \<and> \<not> client_error c \<and> attempts < MAX_RETRIES")
        case True
        then have tr: "transient t" using ErrorObject by simp
        have ih: "\<And>s. loading_while_suspended s (fetchData cur env (attempts + 1))"
          using "1.IH"[OF Inl ErrorObject] True by simp
        show ?thesis
          using Inl tr True ih by (simp add: fetchData_retry lws_append)
      next
        case False
        then consider "n = ''AbortError''" | "n \<noteq> ''AbortError''" "client_error c"
          | "n \<noteq> ''AbortError''" "\<not> client_error c" "MAX_RETRIES \<le> attempts"
          by fastforce
        then show ?thesis
        proof cases
          case 1
          with Inl ErrorObject show ?thesis by (simp add: fetchData_abort)
        next
          case 2
          with Inl ErrorObject show ?thesis by (simp add: fetchData_client_error)
        next
          case 3
          with Inl ErrorObject show ?thesis by (simp add: fetchData_exhausted)
        qed
      qed
    qed
  qed
qed

lemma lws_prefix:
  assumes "loading_while_suspended s es" "es = p @ e # q" "suspends e"
  shows "loading (run p s)"
  using assms by (simp add: lws_append)

text \<open>
  A call that is left alone: after a transient failure that is retried it waits
  \<open>2 ^ a * 1000\<close> ms, and its own effects keep \<open>loading\<close> true at each of its
  suspensions.
\<close>

lemma retry_left_alone:
  assumes "a < MAX_RETRIES" "try_body (env a) = Inl t" "transient t"
  shows "fetchData cur env a =
           [SetLoading True, SetError None, Fetch (request_url cur), Wait (2 ^ a * 1000)] @
           fetchData cur env (a + 1) @ [SetLoading False]
         \<and> (\<forall>p e q. fetchData cur env a = p @ e # q \<and> suspends e \<longrightarrow> loading (run p s))"
  using assms fetchData_retry[of env a t cur] lws_prefix[OF lws_fetchData] by auto

subsection \<open>A sequence that succeeds after retries\<close>

lemma run_until_success:
  assumes "k \<le> MAX_RETRIES"
    and "\<forall>j. a \<le> j \<and> j < k \<longrightarrow> (\<exists>t. try_body (env j) = Inl t \<and> transient t)"
    and "try_body (env k) = Inr d"
    and "a \<le> k"
  shows "run (fetchData cur env a) s =
           s\<lparr>loading := False, error := None,
             pages := \<lparr>previous = previous d, next = next d\<rparr>,
             characters := results d\<rparr>"
  using assms(2,4)
proof (induction "k - a" arbitrary: a s)
  case 0
  then have "a = k" by simp
  then show ?case using assms(3) fetchData_success[of env k d cur] by simp
next
  case (Suc n)
  then have lt: "a < k" by simp
  then obtain t where t: "try_body (env a) = Inl t" "transient t"
    using Suc.prems(1) by auto
  have "a < MAX_RETRIES" using lt assms(1) by simp
  then have step: "run (fetchData cur env a) s =
      (run (fetchData cur env (Suc a)) (s\<lparr>loading := True, error := None\<rparr>))\<lparr>loading := False\<rparr>"
    using run_retry[of env a t cur s] t by simp
  have "run (fetchData cur env (Suc a)) (s\<lparr>loading := True, error := None\<rparr>) =
      (s\<lparr>loading := True, error := None\<rparr>)\<lparr>loading := False, error := None,
             pages := \<lparr>previous = previous d, next = next d\<rparr>,
             characters := results d\<rparr>"
    using Suc.hyps(2) Suc.prems lt by (intro Suc.hyps(1)) auto
  then show ?case using step by simp
qed

subsection \<open>The timer of the error effect\<close>

lemma settled_cases:
  "settled h \<longleftrightarrow>
     (cleanup h = None \<and> timeouts h = [] \<and> \<not> truthy (error h)) \<or>
     (\<exists>t due. cleanup h = Some t \<and> timeouts h = [(t, due)] \<and> clock h < due \<and>
        truthy (error h) \<and> t < next_id h)"
  by (auto simp: settled_def split: option.splits list.splits)

lemma settled_mount: "settled mount"
  by (simp add: settled_def mount_def truthy_def)

lemma settled_setError:
  assumes "settled h"
  shows "settled (setError v h)"
proof -
  consider (idle) "cleanup h = None" "timeouts h = []" "\<not> truthy (error h)"
    | (armed) t due where "cleanup h = Some t" "timeouts h = [(t, due)]" "clock h < due"
        "truthy (error h)" "t < next_id h"
    using assms unfolding settled_cases by auto
  then show ?thesis
  proof cases
    case idle
    then show ?thesis
      by (simp add: settled_def setError_def error_effect_def error_cleanup_def)
  next
    case armed
    then show ?thesis
      by (simp add: settled_def setError_def error_effect_def error_cleanup_def)
  qed
qed

lemma settled_elapse:
  assumes "settled h"
  shows "settled (elapse d h)"
proof -
  consider (idle) "cleanup h = None" "timeouts h = []" "\<not> truthy (error h)"
    | (armed) t due where "cleanup h = Some t" "timeouts h = [(t, due)]" "clock h < due"
        "truthy (error h)" "t < next_id h"
    using assms unfolding settled_cases by auto
  then show ?thesis
  proof cases
    case idle
    then show ?thesis
      by (simp add: settled_def elapse_def)
  next
    case armed
    then obtain y where y: "error h = Some y" "y \<noteq> []"
      by (auto simp: truthy_def split: option.splits)
    show ?thesis
    proof (cases "due \<le> clock h + d")
      case True
      then show ?thesis
        using armed(1,2) y
        by (simp add: settled_def elapse_def setError_def error_effect_def error_cleanup_def
              truthy_def Let_def)
    next
      case False
      then show ?thesis
        using armed
        by (simp add: settled_def elapse_def Let_def)
    qed
  qed
qed

lemma settled_idle:
  assumes "settled h" "error h = None"
  shows "cleanup h = None" "timeouts h = []"
  using assms by (auto simp: settled_def truthy_def split: option.splits)

lemma arm:
  assumes "settled h" "error h = None" "e \<noteq> []"
  shows "setError (Some e) h =
     h\<lparr>error := Some e, timeouts := [(next_id h, clock h + 3000)],
       cleanup := Some (next_id h), next_id := next_id h + 1\<rparr>"
  using settled_idle[OF assms(1,2)] assms(2,3)
  by (simp add: setError_def error_effect_def error_cleanup_def truthy_def)

section \<open>Properties\<close>

subsection \<open>Retries\<close>

text \<open>
  C1, as the code has it. When the server answers 503 to every request, the sequence
  makes four requests (the first attempt and \<open>MAX_RETRIES = 3\<close> retries), waits
  1000 ms, 2000 ms and 4000 ms between them, and then sets \<open>error\<close> to the message of
  the last failure and leaves \<open>loading\<close> false.
\<close>

theorem C1_always_503_four_attempts:
  assumes "\<forall>n. env n = Resolves (resp n) \<and> status (resp n) = 503"
  shows "fetchData cur env 0 =
           [SetLoading True, SetError None, Fetch (request_url cur), Wait 1000,
            SetLoading True, SetError None, Fetch (request_url cur), Wait 2000,
            SetLoading True, SetError None, Fetch (request_url cur), Wait 4000,
            SetLoading True, SetError None, Fetch (request_url cur),
            SetError (Some (''503: '' @ statusText (resp 3))),
            SetLoading False, SetLoading False, SetLoading False, SetLoading False]
         \<and> length (fetches (fetchData cur env 0)) = 4
         \<and> waits (fetchData cur env 0) = [1000, 2000, 4000]
         \<and> error (run (fetchData cur env 0) s) = Some (''503: '' @ statusText (resp 3))
         \<and> loading (run (fetchData cur env 0) s) = False"
proof -
  have e: "\<And>n. env n = Resolves (resp n)" and st: "\<And>n. status (resp n) = 503"
    using assms by auto
  have tb: "\<And>n. try_body (env n) =
      Inl (ErrorObject ''Error'' (''503: '' @ statusText (resp n)) (Some 503))"
    and tr: "\<And>n. transient (ErrorObject ''Error'' (''503: '' @ statusText (resp n)) (Some 503))"
    using transient_503[of env _ "resp _"] e st by auto
  have a3: "fetchData cur env 3 =
      [SetLoading True, SetError None, Fetch (request_url cur),
       SetError (Some (''503: '' @ statusText (resp 3))), SetLoading False]"
    using fetchData_exhausted[of env 3 "''Error''" _ "Some 503" cur] tb[of 3] tr[of 3]
    by (simp add: MAX_RETRIES_def)
  have a2: "fetchData cur env 2 =
      [SetLoading True, SetError None, Fetch (request_url cur), Wait 4000] @
      fetchData cur env 3 @ [SetLoading False]"
    using fetchData_retry[of env 2 _ cur] tb[of 2] tr[of 2]
    by (simp add: MAX_RETRIES_def numeral_3_eq_3)
  have a1: "fetchData cur env (Suc 0) =
      [SetLoading True, SetError None, Fetch (request_url cur), Wait 2000] @
      fetchData cur env 2 @ [SetLoading False]"
    using fetchData_retry[of env 1 _ cur] tb[of 1] tr[of 1]
    by (simp add: MAX_RETRIES_def numeral_2_eq_2)
  have a0: "fetchData cur env 0 =
      [SetLoading True, SetError None, Fetch (request_url cur), Wait 1000] @
      fetchData cur env (Suc 0) @ [SetLoading False]"
    using fetchData_retry[of env 0 _ cur] tb[of 0] tr[of 0]
    by (simp add: MAX_RETRIES_def)
  have whole: "fetchData cur env 0 =
           [SetLoading True, SetError None, Fetch (request_url cur), Wait 1000,
            SetLoading True, SetError None, Fetch (request_url cur), Wait 2000,
            SetLoading True, SetError None, Fetch (request_url cur), Wait 4000,
            SetLoading True, SetError None, Fetch (request_url cur),
            SetError (Some (''503: '' @ statusText (resp 3))),
            SetLoading False, SetLoading False, SetLoading False, SetLoading False]"
    by (simp add: a0 a1 a2 a3)
  show ?thesis unfolding whole by simp
qed

theorem C1_always_503_witness:
  "fetchData None always_503 0 =
           [SetLoading True, SetError None, Fetch ''https://swapi.dev/api/people'', Wait 1000,
            SetLoading True, SetError None, Fetch ''https://swapi.dev/api/people'', Wait 2000,
            SetLoading True, SetError None, Fetch ''https://swapi.dev/api/people'', Wait 4000,
            SetLoading True, SetError None, Fetch ''https://swapi.dev/api/people'',
            SetError (Some ''503: Service Unavailable''),
            SetLoading False, SetLoading False, SetLoading False, SetLoading False]
         \<and> length (fetches (fetchData None always_503 0)) = 4
         \<and> waits (fetchData None always_503 0) = [1000, 2000, 4000]
         \<and> error (run (fetchData None always_503 0) initial_state) =
             Some ''503: Service Unavailable''
         \<and> loading (run (fetchData None always_503 0) initial_state) = False"
  using C1_always_503_four_attempts[of always_503
      "\<lambda>n. \<lparr>status = 503, statusText = ''Service Unavailable'', json = Inl NonErrorValue\<rparr>"
      None initial_state]
  by (simp add: always_503_def request_url_def)

text \<open>
  Against the server that always answers 503 the sequence does not stop after three
  requests and two waits.
\<close>

theorem C1_three_attempts_counterexample:
  "length (fetches (fetchData None always_503 0)) = 4
   \<and> length (fetches (fetchData None always_503 0)) \<noteq> 3
   \<and> waits (fetchData None always_503 0) = [1000, 2000, 4000]
   \<and> waits (fetchData None always_503 0) \<noteq> [1000, 2000]"
  by code_simp

subsection \<open>Failures that are not retried\<close>

text \<open>
  C3. A response with a status in \<open>[400, 500)\<close>, such as 404, ends the call at once:
  one request, no backoff wait, \<open>error\<close> set to the message \<open>"<status>: <statusText>"\<close>
  and \<open>loading\<close> false. For \<open>a = 0\<close> the call is the whole sequence.
\<close>

theorem C3_client_error_no_retry:
  assumes "env a = Resolves r" "400 \<le> status r" "status r < 500"
  shows "fetchData cur env a =
           [SetLoading True, SetError None, Fetch (request_url cur),
            SetError (Some (show_nat (status r) @ '': '' @ statusText r)),
            SetLoading False]
         \<and> length (fetches (fetchData cur env a)) = 1
         \<and> waits (fetchData cur env a) = []
         \<and> error (run (fetchData cur env a) s) =
             Some (show_nat (status r) @ '': '' @ statusText r)
         \<and> loading (run (fetchData cur env a) s) = False"
proof -
  have "\<not> ok r" using assms(2) by (simp add: ok_def)
  then have "try_body (env a) =
      Inl (ErrorObject ''Error'' (show_nat (status r) @ '': '' @ statusText r) (Some (status r)))"
    using assms(1) by (simp add: try_body_http_error http_error_def)
  moreover have "client_error (Some (status r))"
    using assms(2,3) by (simp add: client_error_def)
  ultimately have "fetchData cur env a =
           [SetLoading True, SetError None, Fetch (request_url cur),
            SetError (Some (show_nat (status r) @ '': '' @ statusText r)),
            SetLoading False]"
    using fetchData_client_error[of env a "''Error''" _ "Some (status r)" cur] by simp
  then show ?thesis by simp
qed

theorem C3_client_error_witness:
  "fetchData None always_404 0 =
     [SetLoading True, SetError None, Fetch ''https://swapi.dev/api/people'',
      SetError (Some ''404: Not Found''), SetLoading False]
   \<and> length (fetches (fetchData None always_404 0)) = 1
   \<and> waits (fetchData None always_404 0) = []
   \<and> error (run (fetchData None always_404 0) initial_state) = Some ''404: Not Found''
   \<and> loading (run (fetchData None always_404 0) initial_state) = False"
  using C3_client_error_no_retry[of always_404 0
      "\<lparr>status = 404, statusText = ''Not Found'', json = Inl NonErrorValue\<rparr>"
      None initial_state]
  by (simp add: always_404_def request_url_def show_nat_404)

text \<open>
  C10. When the attempt throws a value that is not an \<open>Error\<close> instance, the call makes
  its one request, never sets \<open>error\<close> to a message, does not wait or retry, and ends
  with \<open>error\<close> null and \<open>loading\<close> false.
\<close>

theorem C10_non_error_value_swallowed:
  assumes "try_body (env a) = Inl NonErrorValue"
  shows "fetchData cur env a =
           [SetLoading True, SetError None, Fetch (request_url cur), SetLoading False]
         \<and> length (fetches (fetchData cur env a)) = 1
         \<and> waits (fetchData cur env a) = []
         \<and> error (run (fetchData cur env a) s) = None
         \<and> loading (run (fetchData cur env a) s) = False"
  using assms fetchData_non_error[of env a cur] by simp

theorem C10_non_error_value_witness:
  "fetchData None throws_value 0 =
     [SetLoading True, SetError None, Fetch ''https://swapi.dev/api/people'', SetLoading False]
   \<and> length (fetches (fetchData None throws_value 0)) = 1
   \<and> waits (fetchData None throws_value 0) = []
   \<and> error (run (fetchData None throws_value 0) error_showing) = None
   \<and> loading (run (fetchData None throws_value 0) error_showing) = False"
  using C10_non_error_value_swallowed[of throws_value 0 None error_showing]
  by (simp add: throws_value_def try_body_def request_url_def)

subsection \<open>Success\<close>

text \<open>
  C4. When a sequence reaches a successful response (status 200 to 299, body decoded to
  \<open>d\<close>), possibly after retried transient failures, it leaves \<open>characters\<close> equal to the
  \<open>results\<close> of that response, whatever the list held before, and \<open>pages\<close> equal to the
  \<open>previous\<close> and \<open>next\<close> of the same response; \<open>error\<close> is null, \<open>loading\<close> is false
  and the cursor is untouched.
\<close>

theorem C4_success_replaces_items_and_pages:
  assumes "k \<le> MAX_RETRIES"
    and "\<forall>j<k. \<exists>t. try_body (env j) = Inl t \<and> transient t"
    and "env k = Resolves r" "200 \<le> status r" "status r \<le> 299" "json r = Inr d"
  shows "characters (run (fetchData cur env 0) s) = results d
         \<and> pages (run (fetchData cur env 0) s) = \<lparr>previous = previous d, next = next d\<rparr>
         \<and> error (run (fetchData cur env 0) s) = None
         \<and> loading (run (fetchData cur env 0) s) = False
         \<and> currentPage (run (fetchData cur env 0) s) = currentPage s"
proof -
  have "try_body (env k) = Inr d"
    using assms(3-6) by (simp add: try_body_def ok_def)
  then show ?thesis
    using run_until_success[of k 0 env d cur s] assms(1,2) by simp
qed

theorem C4_success_witness:
  "characters (run (fetchData (Some ''p2'') flaky 0) error_showing) = [()]
   \<and> pages (run (fetchData (Some ''p2'') flaky 0) error_showing) =
       \<lparr>previous = Some ''p1'', next = Some ''p3''\<rparr>
   \<and> error (run (fetchData (Some ''p2'') flaky 0) error_showing) = None
   \<and> loading (run (fetchData (Some ''p2'') flaky 0) error_showing) = False"
proof -
  have k: "Suc 0 \<le> MAX_RETRIES" by (simp add: MAX_RETRIES_def)
  have before: "\<forall>j<Suc 0. \<exists>t. try_body (flaky j) = Inl t \<and> transient t"
    by (simp add: flaky_def always_503_def try_body_def ok_def http_error_def client_error_def)
  have at: "flaky (Suc 0) = Resolves \<lparr>status = 200, statusText = ''OK'',
       json = Inr \<lparr>previous = Some ''p1'', next = Some ''p3'', results = [()]\<rparr>\<rparr>"
    by (simp add: flaky_def page_two_def)
  show ?thesis
    using k before at
      C4_success_replaces_items_and_pages[of "Suc 0" flaky
        "\<lparr>status = 200, statusText = ''OK'',
          json = Inr \<lparr>previous = Some ''p1'', next = Some ''p3'', results = [()]\<rparr>\<rparr>"
        "\<lparr>previous = Some ''p1'', next = Some ''p3'', results = [()]\<rparr>"
        "Some ''p2''" error_showing]
    by simp
qed

subsection \<open>Navigation\<close>

text \<open>
  C5. \<open>goToPage(null)\<close> is a no-op: the cursor and every other state cell are unchanged
  and no new fetch sequence starts.
\<close>

theorem C5_goToPage_null_noop:
  "setPage None s = s \<and> goToPage None env s = (s, None)"
  by (simp add: setPage_def goToPage_def truthy_def)

text \<open>
  C9. \<open>setPage\<close> treats the empty string like an absent token: the state, and so the
  cursor, is unchanged and no fetch sequence starts.
\<close>

theorem C9_setPage_empty_string_noop:
  "setPage (Some '''') s = s \<and> goToPage (Some '''') env s = (s, None)"
  by (simp add: setPage_def goToPage_def truthy_def)

text \<open>
  C6, as the code has it. Every call of \<open>fetchData\<close>, and so the start of every fetch
  sequence and of every retry, sets \<open>loading\<close> to true and \<open>error\<close> to null before it
  issues its request: while the request is in flight no earlier error is visible.
\<close>

theorem C6_error_cleared_at_start:
  "until_suspend (fetchData cur env a) =
     [SetLoading True, SetError None, Fetch (request_url cur)]
   \<and> error (run (until_suspend (fetchData cur env a)) s) = None
   \<and> loading (run (until_suspend (fetchData cur env a)) s) = True"
  by (subst fetchData.simps, subst fetchData.simps, subst fetchData.simps) simp

text \<open>
  With the error of an earlier sequence showing, a navigation to \<open>p2\<close> starts a new
  sequence, and the error is gone as soon as that sequence has issued its request.
\<close>

theorem C6_stale_error_counterexample:
  "error error_showing = Some ''404: Not Found''
   \<and> error (run (until_suspend (fetchData (Some ''p2'') page_two 0)) error_showing) = None"
  by code_simp

subsection \<open>Cancellation\<close>

text \<open>
  C2 says that a superseded sequence never changes \<open>loading\<close> once it has been
  cancelled. In the code the \<open>catch\<close> block skips an \<open>AbortError\<close>, but the \<open>finally\<close>
  block still runs: with the second sequence in flight (\<open>loading\<close> true), the aborted
  first sequence resumes with \<open>setLoading(false)\<close> and leaves \<open>loading\<close> false although
  the request of the second sequence is still pending.
\<close>

theorem C2_aborted_sequence_clears_loading:
  "loading second_in_flight = True
   \<and> currentPage second_in_flight = Some ''p2''
   \<and> after_suspend (fetchData None aborted 0) = [SetLoading False]
   \<and> loading first_resumed = False"
  by code_simp

text \<open>
  C7 says that \<open>loading\<close> stays true throughout a backoff wait and the retry. The wait
  itself is as claimed: the second sequence, answered with 503 at attempt 0, waits
  \<open>2 ^ 0 * 1000 = 1000\<close> ms. But when it superseded a sequence whose request was in
  flight, the \<open>finally\<close> block of that aborted sequence has run \<open>setLoading(false)\<close>
  in between, and nothing sets \<open>loading\<close> again before the wait: the second sequence
  spends its backoff wait with \<open>loading\<close> false.
\<close>

theorem C7_backoff_with_loading_false:
  "loading retry_in_flight = True
   \<and> loading retry_after_abort = False
   \<and> until_suspend (after_suspend (fetchData (Some ''p2'') always_503 0)) = [Wait 1000]
   \<and> loading retry_backing_off = False
   \<and> loading_while_suspended retry_after_abort
         (after_suspend (fetchData (Some ''p2'') always_503 0)) = False"
  by code_simp

subsection \<open>Auto-dismiss of the error\<close>

text \<open>
  C8, as the code has it. In a state reached from \<open>mount\<close> in which \<open>error\<close> is null,
  setting \<open>error\<close> to a non-empty string arms exactly one timer, due 3000 ms later.
  While nothing else happens the error stays as it is at every time strictly before
  3000 ms, and from 3000 ms on it is null and no timer is pending. If \<open>error\<close> is set to
  a different value before the timer is due, the pending timer is cleared, and a fresh
  3000 ms timer is armed exactly when the new value is a non-empty string. Unmounting
  before the timer is due clears it.
\<close>

theorem C8_error_auto_dismiss:
  assumes "settled h" "error h = None" "e \<noteq> []"
  shows "timeouts (setError (Some e) h) = [(next_id h, clock h + 3000)]
    \<and> (\<forall>d<3000. error (elapse d (setError (Some e) h)) = Some e)
    \<and> (\<forall>d\<ge>3000. error (elapse d (setError (Some e) h)) = None
                 \<and> timeouts (elapse d (setError (Some e) h)) = [])
    \<and> (\<forall>d<3000. \<forall>v. v \<noteq> Some e \<longrightarrow>
          timeouts (setError v (elapse d (setError (Some e) h))) =
            (if truthy v then [(next_id h + 1, clock h + d + 3000)] else []))
    \<and> (\<forall>d<3000. timeouts (unmount (elapse d (setError (Some e) h))) = [])"
proof -
  define h1 where "h1 = setError (Some e) h"
  have h1: "h1 = h\<lparr>error := Some e, timeouts := [(next_id h, clock h + 3000)],
       cleanup := Some (next_id h), next_id := next_id h + 1\<rparr>"
    unfolding h1_def using assms by (rule arm)
  have f: "error h1 = Some e" "timeouts h1 = [(next_id h, clock h + 3000)]"
    "cleanup h1 = Some (next_id h)" "next_id h1 = next_id h + 1" "clock h1 = clock h"
    by (simp_all add: h1)
  have before: "elapse d h1 = h1\<lparr>clock := clock h + d\<rparr>" if "d < 3000" for d
    using that by (simp add: f elapse_def)
  have c2: "\<forall>d<3000. error (elapse d h1) = Some e"
    using before by (simp add: f)
  have c3: "\<forall>d\<ge>3000. error (elapse d h1) = None \<and> timeouts (elapse d h1) = []"
    by (simp add: f elapse_def setError_def error_effect_def error_cleanup_def truthy_def)
  have c4: "\<forall>d<3000. \<forall>v. v \<noteq> Some e \<longrightarrow>
          timeouts (setError v (elapse d h1)) =
            (if truthy v then [(next_id h + 1, clock h + d + 3000)] else [])"
    using before
    by (auto simp: f setError_def error_effect_def error_cleanup_def)
  have c5: "\<forall>d<3000. timeouts (unmount (elapse d h1)) = []"
    using before by (simp add: f unmount_def error_cleanup_def)
  show ?thesis using f(2) c2 c3 c4 c5 unfolding h1_def by blast
qed

theorem C8_error_auto_dismiss_witness:
  "timeouts (setError (Some ''404: Not Found'') (mount :: unit hook_instance)) = [(0, 3000)]
   \<and> error (elapse 2999 (setError (Some ''404: Not Found'') (mount :: unit hook_instance))) =
       Some ''404: Not Found''
   \<and> error (elapse 3000 (setError (Some ''404: Not Found'') (mount :: unit hook_instance))) = None
   \<and> timeouts (elapse 3000 (setError (Some ''404: Not Found'') (mount :: unit hook_instance))) = []
   \<and> timeouts (setError (Some ''500: Internal Server Error'')
        (elapse 1000 (setError (Some ''404: Not Found'') (mount :: unit hook_instance)))) =
       [(1, 4000)]
   \<and> timeouts (setError None
        (elapse 1000 (setError (Some ''404: Not Found'') (mount :: unit hook_instance)))) = []
   \<and> timeouts (unmount
        (elapse 1000 (setError (Some ''404: Not Found'') (mount :: unit hook_instance)))) = []"
proof -
  have m: "settled (mount :: unit hook_instance)" "error (mount :: unit hook_instance) = None"
    "next_id (mount :: unit hook_instance) = 0" "clock (mount :: unit hook_instance) = 0"
    by (simp_all add: settled_mount) (simp_all add: mount_def)
  have ne: "''404: Not Found'' \<noteq> []" by simp
  note c8 = C8_error_auto_dismiss[OF m(1,2) ne, unfolded m(3,4)]
  have a: "timeouts (setError (Some ''404: Not Found'') (mount :: unit hook_instance)) = [(0, 3000)]"
    using c8 by simp
  have b: "error (elapse 2999 (setError (Some ''404: Not Found'') (mount :: unit hook_instance))) =
       Some ''404: Not Found''"
    using c8 by simp
  have c: "error (elapse 3000 (setError (Some ''404: Not Found'') (mount :: unit hook_instance))) = None
     \<and> timeouts (elapse 3000 (setError (Some ''404: Not Found'') (mount :: unit hook_instance))) = []"
    using c8 by simp
  have d1: "timeouts (setError (Some ''500: Internal Server Error'')
        (elapse 1000 (setError (Some ''404: Not Found'') (mount :: unit hook_instance)))) =
       [(1, 4000)]"
    using c8 by (simp add: truthy_def)
  have d2: "timeouts (setError None
        (elapse 1000 (setError (Some ''404: Not Found'') (mount :: unit hook_instance)))) = []"
    using c8 by (simp add: truthy_def)
  have e: "timeouts (unmount
        (elapse 1000 (setError (Some ''404: Not Found'') (mount :: unit hook_instance)))) = []"
    using c8 by simp
  show ?thesis using a b c d1 d2 e by blast
qed

text \<open>
  The empty string is a non-null value of \<open>error\<close>, yet \<open>if (error)\<close> is false for it:
  no timer is armed and the value is still there after 3000 ms.
\<close>

theorem C8_empty_message_counterexample:
  "error (mount :: unit hook_instance) = None
   \<and> error (setError (Some '''') (mount :: unit hook_instance)) = Some ''''
   \<and> timeouts (setError (Some '''') (mount :: unit hook_instance)) = []
   \<and> error (elapse 3000 (setError (Some '''') (mount :: unit hook_instance))) = Some ''''"
  by (simp add: mount_def setError_def error_effect_def error_cleanup_def truthy_def elapse_def)

end
